theory Spec2Isabelle
  imports Main "HOL-Library.Sublist"
begin

section \<open>The newsletter sender (marketing/maketing.py)\<close>

text \<open>
  The script reads an HTML template, builds a multi-part message per recipient, submits it
  over an authenticated SMTP session and tallies the outcomes. The embedding follows the
  three functions of the source: \<open>read_html_template\<close>, \<open>send_newsletter\<close> and \<open>main\<close>.
  Everything the script does beyond computing values is explicit:
  \<^item> the module-level variables are fields of the program state;
  \<^item> \<open>print\<close> appends a line to \<open>stdout\<close>;
  \<^item> every call into \<open>smtplib\<close> is appended to \<open>wire\<close>, the sequence of calls the relay
    (or a recording transport) sees, and its outcome is taken from the environment;
  \<^item> a raised exception is the \<open>Inl\<close> branch of the result.
  Strings are byte strings: the two non-ASCII characters of the source are held as their
  UTF-8 bytes.
\<close>

subsection \<open>Exceptions\<close>

text \<open>
  The exception classes that matter to the handlers of the script, taken from the Python
  class hierarchy below \<open>Exception\<close> (\<open>smtplib.SMTPException\<close> derives from \<open>OSError\<close>).
  \<open>mro\<close> lists a class with all its base classes; \<open>isinstance\<close> is what an
  \<open>except C\<close> clause tests. An \<open>exn\<close> is an error a library call raises, so its class
  derives from \<open>Exception\<close>; an interrupt of the interpreter (\<open>KeyboardInterrupt\<close>,
  \<open>SystemExit\<close>), which is no \<open>Exception\<close>, is not a value of this type.
\<close>

datatype exc_class =
    Exception
  | MemoryError
  | ValueError
  | UnicodeDecodeError
  | UnicodeEncodeError
  | OSError
  | FileNotFoundError
  | PermissionError
  | IsADirectoryError
  | TimeoutError
  | ConnectionRefusedError
  | SMTPException
  | SMTPServerDisconnected
  | SMTPNotSupportedError
  | SMTPRecipientsRefused
  | SMTPResponseException
  | SMTPSenderRefused
  | SMTPDataError
  | SMTPConnectError
  | SMTPHeloError
  | SMTPAuthenticationError

fun mro :: "exc_class \<Rightarrow> exc_class list" where
  "mro Exception = [Exception]"
| "mro MemoryError = [MemoryError, Exception]"
| "mro ValueError = [ValueError, Exception]"
| "mro UnicodeDecodeError = [UnicodeDecodeError, ValueError, Exception]"
| "mro UnicodeEncodeError = [UnicodeEncodeError, ValueError, Exception]"
| "mro OSError = [OSError, Exception]"
| "mro FileNotFoundError = [FileNotFoundError, OSError, Exception]"
| "mro PermissionError = [PermissionError, OSError, Exception]"
| "mro IsADirectoryError = [IsADirectoryError, OSError, Exception]"
| "mro TimeoutError = [TimeoutError, OSError, Exception]"
| "mro ConnectionRefusedError = [ConnectionRefusedError, OSError, Exception]"
| "mro SMTPException = [SMTPException, OSError, Exception]"
| "mro SMTPServerDisconnected = [SMTPServerDisconnected, SMTPException, OSError, Exception]"
| "mro SMTPNotSupportedError = [SMTPNotSupportedError, SMTPException, OSError, Exception]"
| "mro SMTPRecipientsRefused = [SMTPRecipientsRefused, SMTPException, OSError, Exception]"
| "mro SMTPResponseException = [SMTPResponseException, SMTPException, OSError, Exception]"
| "mro SMTPSenderRefused =
     [SMTPSenderRefused, SMTPResponseException, SMTPException, OSError, Exception]"
| "mro SMTPDataError =
     [SMTPDataError, SMTPResponseException, SMTPException, OSError, Exception]"
| "mro SMTPConnectError =
     [SMTPConnectError, SMTPResponseException, SMTPException, OSError, Exception]"
| "mro SMTPHeloError =
     [SMTPHeloError, SMTPResponseException, SMTPException, OSError, Exception]"
| "mro SMTPAuthenticationError =
     [SMTPAuthenticationError, SMTPResponseException, SMTPException, OSError, Exception]"

text \<open>A raised exception: its class and the text \<open>str(e)\<close> gives.\<close>

datatype exn = Exn (cls: exc_class) (str: string)

definition isinstance :: "exn \<Rightarrow> exc_class \<Rightarrow> bool" where
  "isinstance x c = (c \<in> set (mro (cls x)))"

subsection \<open>Messages\<close>

text \<open>
  \<open>MIMEText(text, subtype)\<close> is a body part; a \<open>MIMEMultipart\<close> message has a subtype, its
  header fields in the order they were set (\<open>msg[k] = v\<close> appends a field) and the attached
  parts in the order they were attached.
\<close>

datatype mime_text = MIMEText (body: string) (text_subtype: string)

record message =
  subtype :: string
  headers :: "(string \<times> string) list"
  parts :: "mime_text list"

definition MIMEMultipart :: "string \<Rightarrow> message" where
  "MIMEMultipart st = \<lparr>subtype = st, headers = [], parts = []\<rparr>"

definition setitem :: "message \<Rightarrow> string \<Rightarrow> string \<Rightarrow> message" where
  "setitem msg k v = msg\<lparr>headers := headers msg @ [(k, v)]\<rparr>"

definition attach :: "message \<Rightarrow> mime_text \<Rightarrow> message" where
  "attach msg p = msg\<lparr>parts := parts msg @ [p]\<rparr>"

subsection \<open>Program state and environment\<close>

text \<open>The calls the script makes on the SMTP session, with their arguments.\<close>

datatype smtp_call =
    SMTP string nat
  | Starttls
  | Login string string
  | Send_message message
  | Quit

text \<open>
  The state: the five module-level variables (lines 7 to 13), the lines printed so far, the
  SMTP calls made so far, and \<open>history\<close>, a record of the calls of \<open>send_newsletter\<close> made by
  the loop of \<open>main\<close> with the value each returned (a history variable: the script itself
  keeps only the two counters).
\<close>

record pystate =
  email :: string
  password :: string
  emailList :: "string list"
  subject :: string
  from_name :: string
  stdout :: "string list"
  wire :: "smtp_call list"
  history :: "(string \<times> bool) list"

text \<open>
  What the outside world does during one call of \<open>send_newsletter\<close>:
  \<^item> \<open>html_file\<close>: the path \<open>os.path.join(script_dir, 'index.html')\<close>;
  \<^item> \<open>open_read\<close>: what opening that file and reading it as UTF-8 gives, its contents or
    the exception raised;
  \<^item> \<open>mime_multipart\<close>, \<open>mime_text\<close>: the exception, if any, raised while the message and its
    header fields (lines 31 to 34), respectively the two body parts (lines 66 to 70), are
    built;
  \<^item> \<open>smtp\<close>: the exception, if any, with which each SMTP call ends.
\<close>

record env =
  html_file :: string
  open_read :: "exn + string"
  mime_multipart :: "exn option"
  mime_text :: "exn option"
  smtp :: "smtp_call \<Rightarrow> exn option"

subsection \<open>Statements with effects and exceptions\<close>

type_synonym 'a py = "pystate \<Rightarrow> (exn + 'a) \<times> pystate"

definition ret :: "'a \<Rightarrow> 'a py" where
  "ret x s = (Inr x, s)"

definition raise :: "exn \<Rightarrow> 'a py" where
  "raise x s = (Inl x, s)"

definition bind :: "'a py \<Rightarrow> ('a \<Rightarrow> 'b py) \<Rightarrow> 'b py" where
  "bind m f s = (case m s of (Inl x, s') \<Rightarrow> (Inl x, s') | (Inr v, s') \<Rightarrow> f v s')"

text \<open>\<open>try: m except ... as x: h x\<close>; the handler decides which classes it takes.\<close>

definition try_except :: "'a py \<Rightarrow> (exn \<Rightarrow> 'a py) \<Rightarrow> 'a py" where
  "try_except m h s = (case m s of (Inl x, s') \<Rightarrow> h x s' | (Inr v, s') \<Rightarrow> (Inr v, s'))"

definition print :: "string \<Rightarrow> unit py" where
  "print line s = (Inr (), s\<lparr>stdout := stdout s @ [line]\<rparr>)"

definition may_raise :: "exn option \<Rightarrow> unit py" where
  "may_raise r = (case r of None \<Rightarrow> ret () | Some x \<Rightarrow> raise x)"

definition smtp_do :: "env \<Rightarrow> smtp_call \<Rightarrow> unit py" where
  "smtp_do e c s = may_raise (smtp e c) (s\<lparr>wire := wire s @ [c]\<rparr>)"

definition note_call :: "string \<Rightarrow> bool \<Rightarrow> unit py" where
  "note_call r ok s = (Inr (), s\<lparr>history := history s @ [(r, ok)]\<rparr>)"

subsection \<open>Formatting\<close>

fun str_nat :: "nat \<Rightarrow> string" where
  "str_nat n =
     (if n < 10 then [char_of (48 + n)]
      else str_nat (n div 10) @ [char_of (48 + n mod 10)])"

declare str_nat.simps [simp del]

definition str_int :: "int \<Rightarrow> string" where
  "str_int i = (if i < 0 then CHR ''-'' # str_nat (nat (- i)) else str_nat (nat i))"

definition check_mark :: string where
  "check_mark = [CHR 0xE2, CHR 0x9C, CHR 0x93]"

definition ballot_x :: string where
  "ballot_x = [CHR 0xE2, CHR 0x9C, CHR 0x97]"

definition rule60 :: string where
  "rule60 = replicate 60 CHR ''=''"

subsection \<open>read_html_template (lines 15 to 25)\<close>

definition read_html_template :: "env \<Rightarrow> string option py" where
  "read_html_template e =
     try_except
       (\<lambda>s. case open_read e of Inl x \<Rightarrow> (Inl x, s) | Inr contents \<Rightarrow> (Inr (Some contents), s))
       (\<lambda>x. if isinstance x FileNotFoundError
            then bind (print (''Error: Could not find '' @ html_file e)) (\<lambda>_. ret None)
            else raise x)"

subsection \<open>send_newsletter (lines 27 to 99)\<close>

definition text_content :: string where
  "text_content =
''\<newline>        AI Study Newsletter\<newline>        \<newline>        Discover AI Study - Transform Learning with AI\<newline>        \<newline>        We're excited to introduce AI Study, a revolutionary platform that helps educators \<newline>        and professionals create comprehensive learning materials in minutes.\<newline>        \<newline>        Features:\<newline>        - AI-Powered Generation\<newline>        - Multiple Course Formats\<newline>        - Smart Flash Cards\<newline>        - Study Guides\<newline>        - Interactive Quizzes\<newline>        - AI Teacher Chat\<newline>        - 23+ Languages Support\<newline>        - PWA & Offline Access\<newline>        \<newline>        Visit us to learn more!\<newline>        \<newline>        Contact: hello@aistudy.com\<newline>        ''"

text \<open>\<open>not html_content\<close>: true of \<open>None\<close> and of the empty string.\<close>

definition falsy :: "string option \<Rightarrow> bool" where
  "falsy v = (case v of None \<Rightarrow> True | Some t \<Rightarrow> t = [])"

definition auth_line :: string where
  "auth_line = ballot_x @ '' Authentication failed. Please check your email and app password.''"

definition smtp_error_line :: "string \<Rightarrow> string" where
  "smtp_error_line m = ballot_x @ '' SMTP error occurred: '' @ m"

definition other_error_line :: "string \<Rightarrow> string \<Rightarrow> string" where
  "other_error_line r m = ballot_x @ '' Error sending to '' @ r @ '': '' @ m"

definition success_line :: "string \<Rightarrow> string" where
  "success_line r = check_mark @ '' Successfully sent to '' @ r"

text \<open>The body of the \<open>try\<close> block, lines 30 to 89.\<close>

definition send_body :: "env \<Rightarrow> string \<Rightarrow> bool py" where
  "send_body e recipient_email =
     bind (may_raise (mime_multipart e)) (\<lambda>_. (\<lambda>s.
       (let msg = MIMEMultipart ''alternative'';
            msg = setitem msg ''From'' (from_name s @ '' <'' @ email s @ ''>'');
            msg = setitem msg ''To'' recipient_email;
            msg = setitem msg ''Subject'' (subject s)
        in bind (read_html_template e) (\<lambda>html_content.
           if falsy html_content then ret False
           else
             bind (may_raise (mime_text e)) (\<lambda>_.
               (let part1 = MIMEText text_content ''plain'';
                    part2 = MIMEText (the html_content) ''html'';
                    msg = attach msg part1;
                    msg = attach msg part2
                in bind (print ''Connecting to Gmail SMTP server...'') (\<lambda>_.
                   bind (smtp_do e (SMTP ''smtp.gmail.com'' 587)) (\<lambda>_.
                   bind (smtp_do e Starttls) (\<lambda>_.
                   bind (\<lambda>s. print (''Logging in as '' @ email s @ ''...'') s) (\<lambda>_.
                   bind (\<lambda>s. smtp_do e (Login (email s) (password s)) s) (\<lambda>_.
                   bind (print (''Sending newsletter to '' @ recipient_email @ ''...'')) (\<lambda>_.
                   bind (smtp_do e (Send_message msg)) (\<lambda>_.
                   bind (smtp_do e Quit) (\<lambda>_.
                   bind (print (success_line recipient_email)) (\<lambda>_.
                   ret True))))))))))))) s))"

text \<open>The three \<open>except\<close> clauses, lines 91 to 99, in the order of the source.\<close>

definition send_handlers :: "string \<Rightarrow> exn \<Rightarrow> bool py" where
  "send_handlers recipient_email x =
     (if isinstance x SMTPAuthenticationError
        then bind (print auth_line) (\<lambda>_. ret False)
      else if isinstance x SMTPException
        then bind (print (smtp_error_line (str x))) (\<lambda>_. ret False)
      else if isinstance x Exception
        then bind (print (other_error_line recipient_email (str x))) (\<lambda>_. ret False)
      else raise x)"

definition send_newsletter :: "env \<Rightarrow> string \<Rightarrow> bool py" where
  "send_newsletter e recipient_email =
     try_except (send_body e recipient_email) (send_handlers recipient_email)"

subsection \<open>main (lines 101 to 126)\<close>

text \<open>
  The \<open>for\<close> loop of lines 115 to 120 over the recipients still to come, with the two
  counters; \<open>envs i\<close> is the environment of the \<open>i\<close>-th call of \<open>send_newsletter\<close>.
\<close>

fun for_recipient :: "(nat \<Rightarrow> env) \<Rightarrow> nat \<Rightarrow> string list \<Rightarrow> int \<times> int \<Rightarrow> (int \<times> int) py" where
  "for_recipient envs i [] (success_count, fail_count) = ret (success_count, fail_count)"
| "for_recipient envs i (recipient # rest) (success_count, fail_count) =
     bind (send_newsletter (envs i) recipient) (\<lambda>ok.
     bind (note_call recipient ok) (\<lambda>_.
     bind (print []) (\<lambda>_.
       for_recipient envs (Suc i) rest
         (if ok then (success_count + 1, fail_count) else (success_count, fail_count + 1)))))"

text \<open>
  \<open>main\<close> returns nothing in the source; the model returns its two local counters, so that
  they can be observed.
\<close>

definition main :: "(nat \<Rightarrow> env) \<Rightarrow> (int \<times> int) py" where
  "main envs =
     bind (print rule60) (\<lambda>_.
     bind (print ''AI Study Newsletter Sender'') (\<lambda>_.
     bind (print rule60) (\<lambda>_.
     bind (\<lambda>s. print (''From: '' @ email s) s) (\<lambda>_.
     bind (\<lambda>s. print (''Recipients: '' @ str_int (int (length (emailList s)))) s) (\<lambda>_.
     bind (\<lambda>s. print (''Subject: '' @ subject s) s) (\<lambda>_.
     bind (print rule60) (\<lambda>_.
     bind (print []) (\<lambda>_.
     bind (\<lambda>s. for_recipient envs 0 (emailList s) (0, 0) s) (\<lambda>(success_count, fail_count).
     bind (print rule60) (\<lambda>_.
     bind (print ''Newsletter Sending Complete'') (\<lambda>_.
     bind (print (check_mark @ '' Successful: '' @ str_int success_count)) (\<lambda>_.
     bind (print (ballot_x @ '' Failed: '' @ str_int fail_count)) (\<lambda>_.
     bind (print rule60) (\<lambda>_.
     ret (success_count, fail_count)))))))))))))))"

subsection \<open>Observing a run\<close>

text \<open>
  The definitions below are not part of the script; the statements about it are written
  with them. \<open>fresh s\<close> is the state \<open>s\<close> with nothing printed, sent or recorded yet: the
  module-level variables alone. The three \<open>loop_\<close> functions collect, call by call, what the
  calls of \<open>send_newsletter\<close> made by the loop return, print and send, each call running in
  its own environment and on the module-level variables \<open>c\<close>.
\<close>

definition fresh :: "pystate \<Rightarrow> pystate" where
  "fresh s = s\<lparr>stdout := [], wire := [], history := []\<rparr>"

fun loop_outcomes :: "(nat \<Rightarrow> env) \<Rightarrow> nat \<Rightarrow> string list \<Rightarrow> pystate \<Rightarrow> (string \<times> bool) list" where
  "loop_outcomes envs i [] c = []"
| "loop_outcomes envs i (r # rs) c =
     (r, fst (send_newsletter (envs i) r c) = Inr True) # loop_outcomes envs (Suc i) rs c"

fun loop_stdout :: "(nat \<Rightarrow> env) \<Rightarrow> nat \<Rightarrow> string list \<Rightarrow> pystate \<Rightarrow> string list" where
  "loop_stdout envs i [] c = []"
| "loop_stdout envs i (r # rs) c =
     stdout (snd (send_newsletter (envs i) r c)) @ [[]] @ loop_stdout envs (Suc i) rs c"

fun loop_wire :: "(nat \<Rightarrow> env) \<Rightarrow> nat \<Rightarrow> string list \<Rightarrow> pystate \<Rightarrow> smtp_call list" where
  "loop_wire envs i [] c = []"
| "loop_wire envs i (r # rs) c =
     wire (snd (send_newsletter (envs i) r c)) @ loop_wire envs (Suc i) rs c"

definition successes :: "(string \<times> bool) list \<Rightarrow> int" where
  "successes outs = int (length (filter snd outs))"

definition failures :: "(string \<times> bool) list \<Rightarrow> int" where
  "failures outs = int (length (filter (\<lambda>out. \<not> snd out) outs))"

text \<open>The lines \<open>main\<close> prints before the loop (lines 103 to 110) and after it (122 to 126).\<close>

definition header_lines :: "pystate \<Rightarrow> string list" where
  "header_lines s =
     [rule60, ''AI Study Newsletter Sender'', rule60, ''From: '' @ email s,
      ''Recipients: '' @ str_int (int (length (emailList s))), ''Subject: '' @ subject s,
      rule60, []]"

definition summary_lines :: "int \<Rightarrow> int \<Rightarrow> string list" where
  "summary_lines sc fc =
     [rule60, ''Newsletter Sending Complete'', check_mark @ '' Successful: '' @ str_int sc,
      ballot_x @ '' Failed: '' @ str_int fc, rule60]"

text \<open>The line the \<open>except\<close> clauses print for an exception.\<close>

definition handler_line :: "string \<Rightarrow> exn \<Rightarrow> string" where
  "handler_line r x =
     (if isinstance x SMTPAuthenticationError then auth_line
      else if isinstance x SMTPException then smtp_error_line (str x)
      else other_error_line r (str x))"

text \<open>The message of lines 31 to 70 for a recipient and a template text.\<close>

definition built_message :: "pystate \<Rightarrow> string \<Rightarrow> string \<Rightarrow> message" where
  "built_message s recipient_email html =
     \<lparr>subtype = ''alternative'',
      headers = [(''From'', from_name s @ '' <'' @ email s @ ''>''),
                 (''To'', recipient_email), (''Subject'', subject s)],
      parts = [MIMEText text_content ''plain'', MIMEText html ''html'']\<rparr>"

subsection \<open>Environments of the error scenarios\<close>

text \<open>The template file does not exist: opening it raises \<open>FileNotFoundError\<close>.\<close>

definition template_missing :: "env \<Rightarrow> bool" where
  "template_missing e =
     (case open_read e of Inl x \<Rightarrow> isinstance x FileNotFoundError | Inr contents \<Rightarrow> False)"

text \<open>
  The relay rejects the authentication: the call reaches the \<open>login\<close> step (the message is
  built, the template is there and not empty, the connection and its upgrade succeed) and
  \<open>login\<close> with the configured account raises \<open>SMTPAuthenticationError\<close>.
\<close>

definition reaches_login :: "env \<Rightarrow> bool" where
  "reaches_login e \<longleftrightarrow>
     mime_multipart e = None \<and>
     (case open_read e of Inl x \<Rightarrow> False | Inr contents \<Rightarrow> contents \<noteq> []) \<and>
     mime_text e = None \<and>
     smtp e (SMTP ''smtp.gmail.com'' 587) = None \<and>
     smtp e Starttls = None"

definition auth_rejected :: "env \<Rightarrow> pystate \<Rightarrow> bool" where
  "auth_rejected e s \<longleftrightarrow>
     reaches_login e \<and>
     (case smtp e (Login (email s) (password s)) of
        None \<Rightarrow> False | Some x \<Rightarrow> isinstance x SMTPAuthenticationError)"

definition auth_attempt_lines :: "pystate \<Rightarrow> string list" where
  "auth_attempt_lines s =
     [''Connecting to Gmail SMTP server...'', ''Logging in as '' @ email s @ ''...'', auth_line]"

definition auth_attempt_calls :: "pystate \<Rightarrow> smtp_call list" where
  "auth_attempt_calls s = [SMTP ''smtp.gmail.com'' 587, Starttls, Login (email s) (password s)]"

subsection \<open>Concrete runs\<close>

text \<open>The states and environments of the end-to-end scenarios, for the worked examples.\<close>

definition s_ab :: pystate where
  "s_ab = \<lparr>email = ''news@x.com'', password = ''secret'',
           emailList = [''a@x.com'', ''b@x.com''],
           subject = ''Newsletter'', from_name = ''Team'',
           stdout = [], wire = [], history = []\<rparr>"

definition s_a :: pystate where
  "s_a = s_ab\<lparr>emailList := [''a@x.com'']\<rparr>"

definition s_none :: pystate where
  "s_none = s_ab\<lparr>emailList := []\<rparr>"

definition env_ok :: env where
  "env_ok = \<lparr>html_file = ''/srv/marketing/index.html'', open_read = Inr ''<html></html>'',
             mime_multipart = None, mime_text = None, smtp = (\<lambda>c. None)\<rparr>"

definition env_missing :: env where
  "env_missing = env_ok\<lparr>open_read := Inl (Exn FileNotFoundError ''No such file'')\<rparr>"

definition env_empty :: env where
  "env_empty = env_ok\<lparr>open_read := Inr []\<rparr>"

definition env_undecodable :: env where
  "env_undecodable = env_ok\<lparr>open_read := Inl (Exn UnicodeDecodeError ''invalid start byte'')\<rparr>"

definition env_auth :: env where
  "env_auth = env_ok\<lparr>smtp := (\<lambda>c. case c of
       Login u p \<Rightarrow> Some (Exn SMTPAuthenticationError ''(535, Bad credentials)'')
     | _ \<Rightarrow> None)\<rparr>"

section \<open>Properties\<close>

subsection \<open>One call of send_newsletter\<close>

lemmas py_defs = bind_def ret_def raise_def print_def may_raise_def smtp_do_def
  note_call_def try_except_def

lemma isinstance_Exception: "isinstance x Exception"
  by (cases x; cases "cls x"; simp add: isinstance_def)

lemma send_handlers_returns:
  "send_handlers r x s = (Inr False, s\<lparr>stdout := stdout s @ [handler_line r x]\<rparr>)"
  by (simp add: send_handlers_def handler_line_def py_defs isinstance_Exception)

lemma send_newsletter_unfold:
  "send_newsletter e r s =
     (case send_body e r s of
        (Inl x, s1) \<Rightarrow> (Inr False, s1\<lparr>stdout := stdout s1 @ [handler_line r x]\<rparr>)
      | (Inr b, s1) \<Rightarrow> (Inr b, s1))"
  by (simp add: send_newsletter_def try_except_def send_handlers_returns
      split: prod.splits sum.splits)

lemma send_newsletter_returns: "\<exists>b s'. send_newsletter e r s = (Inr b, s')"
  by (auto simp: send_newsletter_unfold split: prod.splits sum.splits)

text \<open>
  A call reads the module-level variables only: what it returns, prints and sends is what it
  does from the fresh state, appended to what was there.
\<close>

lemma send_body_closed:
  "send_body e r s =
     (case send_body e r (fresh s) of
        (res, t) \<Rightarrow> (res, s\<lparr>stdout := stdout s @ stdout t, wire := wire s @ wire t\<rparr>))"
  by (simp add: send_body_def read_html_template_def fresh_def Let_def py_defs
      split: sum.splits if_splits option.splits prod.splits)

lemma send_newsletter_closed:
  "send_newsletter e r s =
     (case send_newsletter e r (fresh s) of
        (res, t) \<Rightarrow> (res, s\<lparr>stdout := stdout s @ stdout t, wire := wire s @ wire t\<rparr>))"
  apply (subst send_newsletter_unfold)
  apply (subst send_body_closed)
  apply (simp add: send_newsletter_unfold split: sum.splits prod.splits)
  done

lemma send_newsletter_step:
  "send_newsletter e r s =
     (Inr (fst (send_newsletter e r (fresh s)) = Inr True),
      s\<lparr>stdout := stdout s @ stdout (snd (send_newsletter e r (fresh s))),
        wire := wire s @ wire (snd (send_newsletter e r (fresh s)))\<rparr>)"
proof -
  obtain b t where A: "send_newsletter e r (fresh s) = (Inr b, t)"
    using send_newsletter_returns by blast
  show ?thesis
    by (subst send_newsletter_closed) (simp add: A)
qed

lemmas send_defs = send_newsletter_unfold send_body_def read_html_template_def Let_def
  falsy_def MIMEMultipart_def setitem_def attach_def

lemma attempt_template_missing:
  assumes "template_missing e"
  shows "fst (send_newsletter e r s) = Inr False"
    and "wire (snd (send_newsletter e r s)) = wire s"
  using assms
  by (auto simp: template_missing_def send_defs py_defs split: sum.splits option.splits)

lemma attempt_auth_rejected:
  assumes "auth_rejected e s"
  shows "fst (send_newsletter e r s) = Inr False"
    and "stdout (snd (send_newsletter e r s)) = stdout s @ auth_attempt_lines s"
    and "wire (snd (send_newsletter e r s)) = wire s @ auth_attempt_calls s"
  using assms
  by (auto simp: auth_rejected_def reaches_login_def send_defs py_defs handler_line_def
        auth_attempt_lines_def auth_attempt_calls_def
      split: sum.splits option.splits)

lemma auth_rejected_fresh: "auth_rejected e (fresh s) = auth_rejected e s"
  by (simp add: auth_rejected_def fresh_def)

subsection \<open>The loop and main in closed form\<close>

lemma for_recipient_closed:
  "for_recipient envs i rs (sc, fc) s =
     (Inr (sc + successes (loop_outcomes envs i rs (fresh s)),
           fc + failures (loop_outcomes envs i rs (fresh s))),
      s\<lparr>stdout := stdout s @ loop_stdout envs i rs (fresh s),
        wire := wire s @ loop_wire envs i rs (fresh s),
        history := history s @ loop_outcomes envs i rs (fresh s)\<rparr>)"
proof (induction rs arbitrary: i sc fc s)
  case Nil
  show ?case by (simp add: ret_def successes_def failures_def)
next
  case (Cons r rs)
  let ?b = "fst (send_newsletter (envs i) r (fresh s)) = Inr True"
  let ?t = "snd (send_newsletter (envs i) r (fresh s))"
  let ?s1 = "s\<lparr>wire := wire s @ wire ?t, history := history s @ [(r, ?b)],
               stdout := stdout s @ stdout ?t @ [[]]\<rparr>"
  have fr: "fresh ?s1 = fresh s" by (simp add: fresh_def)
  have step: "for_recipient envs i (r # rs) (sc, fc) s =
      for_recipient envs (Suc i) rs (if ?b then (sc + 1, fc) else (sc, fc + 1)) ?s1"
    by (simp add: bind_def print_def note_call_def send_newsletter_step [of "envs i" r s])
  show ?case
  proof (cases ?b)
    case True
    then show ?thesis
      unfolding step using Cons.IH [of "Suc i" "sc + 1" fc ?s1, unfolded fr]
      by (simp add: successes_def failures_def)
  next
    case False
    then show ?thesis
      unfolding step using Cons.IH [of "Suc i" sc "fc + 1" ?s1, unfolded fr]
      by (simp add: successes_def failures_def)
  qed
qed

lemma main_closed:
  "main envs s =
     (Inr (successes (loop_outcomes envs 0 (emailList s) (fresh s)),
           failures (loop_outcomes envs 0 (emailList s) (fresh s))),
      s\<lparr>stdout := stdout s @ header_lines s @ loop_stdout envs 0 (emailList s) (fresh s)
            @ summary_lines (successes (loop_outcomes envs 0 (emailList s) (fresh s)))
                (failures (loop_outcomes envs 0 (emailList s) (fresh s))),
        wire := wire s @ loop_wire envs 0 (emailList s) (fresh s),
        history := history s @ loop_outcomes envs 0 (emailList s) (fresh s)\<rparr>)"
  by (simp add: main_def bind_def print_def ret_def for_recipient_closed fresh_def
      header_lines_def summary_lines_def)

lemma map_fst_loop_outcomes: "map fst (loop_outcomes envs i rs c) = rs"
  by (induction rs arbitrary: i) simp_all

lemma successes_plus_failures: "successes outs + failures outs = int (length outs)"
  by (induction outs) (simp_all add: successes_def failures_def)

lemma successes_all_failed: "successes (map (\<lambda>r. (r, False)) rs) = 0"
  by (simp add: successes_def)

lemma failures_all_failed: "failures (map (\<lambda>r. (r, False)) rs) = int (length rs)"
  by (simp add: failures_def)

lemma state_after_main:
  "stdout (snd (main envs s)) =
     stdout s @ header_lines s @ loop_stdout envs 0 (emailList s) (fresh s)
       @ summary_lines (successes (loop_outcomes envs 0 (emailList s) (fresh s)))
           (failures (loop_outcomes envs 0 (emailList s) (fresh s)))"
  "wire (snd (main envs s)) = wire s @ loop_wire envs 0 (emailList s) (fresh s)"
  "history (snd (main envs s)) = history s @ loop_outcomes envs 0 (emailList s) (fresh s)"
  "fst (main envs s) =
     Inr (successes (loop_outcomes envs 0 (emailList s) (fresh s)),
          failures (loop_outcomes envs 0 (emailList s) (fresh s)))"
  by (simp_all add: main_closed)

section \<open>The claims\<close>

subsection \<open>C1: one outcome per recipient, and the summary\<close>

text \<open>
  C1. For every recipient list, the empty one included, and whatever the environment does,
  \<open>main\<close> returns; there is a list \<open>outs\<close> of outcomes, one for each recipient of the list
  and in its order, each a success or a failure; \<open>success_count\<close> is the number of
  successes and \<open>fail_count\<close> the number of failures among them, so that the two counters sum
  to the length of the list; the output ends with the summary lines showing the two
  counters; and for the empty list both counters are 0.
\<close>

theorem main_one_outcome_per_recipient:
  "\<exists>outs. fst (main envs s) = Inr (successes outs, failures outs) \<and>
          history (snd (main envs s)) = history s @ outs \<and>
          map fst outs = emailList s \<and>
          successes outs + failures outs = int (length (emailList s)) \<and>
          suffix (summary_lines (successes outs) (failures outs)) (stdout (snd (main envs s))) \<and>
          (emailList s = [] \<longrightarrow> fst (main envs s) = Inr (0, 0))"
proof -
  let ?outs = "loop_outcomes envs 0 (emailList s) (fresh s)"
  have len: "length ?outs = length (emailList s)"
    using map_fst_loop_outcomes [of envs 0 "emailList s" "fresh s"] by (metis length_map)
  have "fst (main envs s) = Inr (successes ?outs, failures ?outs)"
    by (simp add: state_after_main)
  moreover have "history (snd (main envs s)) = history s @ ?outs"
    by (simp add: state_after_main)
  moreover have "map fst ?outs = emailList s"
    by (rule map_fst_loop_outcomes)
  moreover have "successes ?outs + failures ?outs = int (length (emailList s))"
    by (simp add: successes_plus_failures len)
  moreover have "suffix (summary_lines (successes ?outs) (failures ?outs))
      (stdout (snd (main envs s)))"
    unfolding state_after_main suffix_def by (metis append.assoc)
  moreover have "emailList s = [] \<longrightarrow> fst (main envs s) = Inr (0, 0)"
    by (simp add: state_after_main successes_def failures_def)
  ultimately show ?thesis by blast
qed

text \<open>Scenario 4: the empty list gives 0 and 0, and the summary is printed.\<close>

theorem main_one_outcome_per_recipient_witness:
  "emailList s_none = [] \<and> fst (main (\<lambda>i. env_ok) s_none) = Inr (0, 0) \<and>
   suffix (summary_lines 0 0) (stdout (snd (main (\<lambda>i. env_ok) s_none)))"
proof -
  have e: "emailList s_none = []" by (simp add: s_none_def)
  from main_one_outcome_per_recipient [of "\<lambda>i. env_ok" s_none] obtain outs
    where m: "fst (main (\<lambda>i. env_ok) s_none) = Inr (successes outs, failures outs)"
      and p: "suffix (summary_lines (successes outs) (failures outs))
                (stdout (snd (main (\<lambda>i. env_ok) s_none)))"
      and z: "emailList s_none = [] \<longrightarrow> fst (main (\<lambda>i. env_ok) s_none) = Inr (0, 0)"
    by blast
  from z e have r: "fst (main (\<lambda>i. env_ok) s_none) = Inr (0, 0)" by simp
  with m have "successes outs = 0" "failures outs = 0" by simp_all
  with p e r show ?thesis by simp
qed

subsection \<open>C2: a missing template fails every recipient before any connection\<close>

lemma loop_template_missing:
  "\<forall>j<length rs. template_missing (envs (i + j)) \<Longrightarrow> wire c = [] \<Longrightarrow>
     loop_outcomes envs i rs c = map (\<lambda>r. (r, False)) rs \<and> loop_wire envs i rs c = []"
proof (induction rs arbitrary: i)
  case Nil
  show ?case by simp
next
  case (Cons r rs)
  have here: "template_missing (envs i)" using Cons.prems(1) by force
  have "\<forall>j<length rs. template_missing (envs (Suc i + j))"
    using Cons.prems(1) by force
  from Cons.IH [OF this Cons.prems(2)] show ?case
    by (simp add: attempt_template_missing [OF here] Cons.prems(2))
qed

text \<open>
  C2. If the template file is missing at every call, then every call of \<open>send_newsletter\<close>
  made by \<open>main\<close> returns failure, \<open>fail_count\<close> is the length of the list and
  \<open>success_count\<close> is 0, and no SMTP call at all is made during the run: no connection to
  the relay is opened.
\<close>

theorem missing_template_fails_every_recipient:
  assumes "\<forall>i<length (emailList s). template_missing (envs i)"
  shows "fst (main envs s) = Inr (0, int (length (emailList s))) \<and>
         history (snd (main envs s)) = history s @ map (\<lambda>r. (r, False)) (emailList s) \<and>
         wire (snd (main envs s)) = wire s"
proof -
  have "\<forall>j<length (emailList s). template_missing (envs (0 + j))"
    using assms by simp
  from loop_template_missing [OF this, of "fresh s"]
  have o: "loop_outcomes envs 0 (emailList s) (fresh s) = map (\<lambda>r. (r, False)) (emailList s)"
    and w: "loop_wire envs 0 (emailList s) (fresh s) = []"
    by (simp_all add: fresh_def)
  show ?thesis
    by (simp add: state_after_main o w successes_all_failed failures_all_failed)
qed

text \<open>Scenario 2: one recipient, no template file.\<close>

theorem missing_template_fails_every_recipient_witness:
  "template_missing env_missing \<and>
   fst (main (\<lambda>i. env_missing) s_a) = Inr (0, 1) \<and>
   history (snd (main (\<lambda>i. env_missing) s_a)) = [(''a@x.com'', False)] \<and>
   wire (snd (main (\<lambda>i. env_missing) s_a)) = []"
proof -
  have m: "template_missing env_missing"
    by (simp add: template_missing_def env_missing_def isinstance_def)
  then have h: "\<forall>i<length (emailList s_a). template_missing env_missing"
    by simp
  have l: "emailList s_a = [''a@x.com'']" "history s_a = []" "wire s_a = []"
    by (simp_all add: s_a_def s_ab_def)
  from missing_template_fails_every_recipient [of s_a "\<lambda>i. env_missing", OF h] m l
  show ?thesis by simp
qed

subsection \<open>C3: rejected authentication fails every recipient with the authentication reason\<close>

lemma loop_auth_rejected:
  "\<forall>j<length rs. auth_rejected (envs (i + j)) c \<Longrightarrow> stdout c = [] \<Longrightarrow> wire c = [] \<Longrightarrow>
     loop_outcomes envs i rs c = map (\<lambda>r. (r, False)) rs \<and>
     loop_stdout envs i rs c = concat (map (\<lambda>r. auth_attempt_lines c @ [[]]) rs) \<and>
     loop_wire envs i rs c = concat (map (\<lambda>r. auth_attempt_calls c) rs)"
proof (induction rs arbitrary: i)
  case Nil
  show ?case by simp
next
  case (Cons r rs)
  have here: "auth_rejected (envs i) c" using Cons.prems(1) by force
  have "\<forall>j<length rs. auth_rejected (envs (Suc i + j)) c"
    using Cons.prems(1) by force
  from Cons.IH [OF this Cons.prems(2,3)] show ?case
    by (simp add: attempt_auth_rejected [OF here] Cons.prems(2,3))
qed

lemma auth_attempt_fresh:
  "auth_attempt_lines (fresh s) = auth_attempt_lines s"
  "auth_attempt_calls (fresh s) = auth_attempt_calls s"
  by (simp_all add: auth_attempt_lines_def auth_attempt_calls_def fresh_def)

lemma auth_rejected_env_auth: "auth_rejected env_auth s"
  by (simp add: auth_rejected_def reaches_login_def env_auth_def env_ok_def isinstance_def)

text \<open>
  C3. If the relay rejects the authentication at every call (each call reaches the \<open>login\<close>
  step and \<open>login\<close> with the configured account raises \<open>SMTPAuthenticationError\<close>), then
  every call of \<open>send_newsletter\<close> made by \<open>main\<close> returns failure; what each call prints is
  the two progress lines and then the authentication line, not the SMTP-error line nor the
  unexpected-error line; the run goes on to the next recipient each time, a connection and
  a \<open>login\<close> being made for every recipient; \<open>fail_count\<close> is the length of the list and
  \<open>success_count\<close> is 0.
\<close>

theorem rejected_authentication_fails_every_recipient:
  assumes "\<forall>i<length (emailList s). auth_rejected (envs i) s"
  shows "fst (main envs s) = Inr (0, int (length (emailList s))) \<and>
         history (snd (main envs s)) = history s @ map (\<lambda>r. (r, False)) (emailList s) \<and>
         stdout (snd (main envs s)) =
           stdout s @ header_lines s
             @ concat (map (\<lambda>r. auth_attempt_lines s @ [[]]) (emailList s))
             @ summary_lines 0 (int (length (emailList s))) \<and>
         wire (snd (main envs s)) =
           wire s @ concat (map (\<lambda>r. auth_attempt_calls s) (emailList s))"
proof -
  have "\<forall>j<length (emailList s). auth_rejected (envs (0 + j)) (fresh s)"
    using assms by (simp add: auth_rejected_fresh)
  from loop_auth_rejected [OF this]
  have o: "loop_outcomes envs 0 (emailList s) (fresh s) = map (\<lambda>r. (r, False)) (emailList s)"
    and p: "loop_stdout envs 0 (emailList s) (fresh s) =
              concat (map (\<lambda>r. auth_attempt_lines s @ [[]]) (emailList s))"
    and w: "loop_wire envs 0 (emailList s) (fresh s) =
              concat (map (\<lambda>r. auth_attempt_calls s) (emailList s))"
    by (simp_all add: fresh_def auth_attempt_fresh [unfolded fresh_def])
  show ?thesis
    by (simp add: state_after_main o p w successes_all_failed failures_all_failed)
qed

text \<open>Scenario 3: two recipients, the relay rejects the authentication both times.\<close>

theorem rejected_authentication_fails_every_recipient_witness:
  "auth_rejected env_auth s_ab \<and>
   fst (main (\<lambda>i. env_auth) s_ab) = Inr (0, 2) \<and>
   history (snd (main (\<lambda>i. env_auth) s_ab)) = [(''a@x.com'', False), (''b@x.com'', False)] \<and>
   stdout (snd (main (\<lambda>i. env_auth) s_ab)) =
     header_lines s_ab
       @ [''Connecting to Gmail SMTP server...'', ''Logging in as news@x.com...'', auth_line, [],
          ''Connecting to Gmail SMTP server...'', ''Logging in as news@x.com...'', auth_line, []]
       @ summary_lines 0 2"
proof -
  have a: "auth_rejected env_auth s_ab" by (rule auth_rejected_env_auth)
  then have h: "\<forall>i<length (emailList s_ab). auth_rejected env_auth s_ab" by simp
  have l: "emailList s_ab = [''a@x.com'', ''b@x.com'']" "history s_ab = []" "stdout s_ab = []"
    "email s_ab = ''news@x.com''"
    by (simp_all add: s_ab_def)
  from rejected_authentication_fails_every_recipient [of s_ab "\<lambda>i. env_auth", OF h] a l
  show ?thesis by (simp add: auth_attempt_lines_def)
qed

subsection \<open>C4: the session is closed only after a successful transmission\<close>

text \<open>
  \<open>quit\<close> is line 86, the last step of the \<open>try\<close> block, and no \<open>except\<close> clause calls it: it
  is called exactly when the template is there and not empty, the message is built, and
  the connection, its upgrade, the login and the transmission have all succeeded.
\<close>

lemma quit_called_iff:
  "Quit \<in> set (wire (snd (send_newsletter e r (fresh s)))) \<longleftrightarrow>
     (\<exists>html. open_read e = Inr html \<and> html \<noteq> [] \<and>
        mime_multipart e = None \<and> mime_text e = None \<and>
        smtp e (SMTP ''smtp.gmail.com'' 587) = None \<and> smtp e Starttls = None \<and>
        smtp e (Login (email s) (password s)) = None \<and>
        smtp e (Send_message (built_message s r html)) = None)"
  by (auto simp: send_defs py_defs built_message_def fresh_def
      split: sum.splits option.splits prod.splits if_splits)

text \<open>
  C4 says that the close step is performed in every call that opened a connection, also
  when the upgrade, the authentication or the transmission fails. The script does not do
  that. In the call below the connection is opened (\<open>SMTP\<close> returns), the relay rejects the
  login, the call returns failure, and the SMTP calls made are the connection, the upgrade
  and the login: \<open>quit\<close> is not among them.
\<close>

theorem quit_skipped_after_failed_login:
  "smtp env_auth (SMTP ''smtp.gmail.com'' 587) = None \<and>
   fst (send_newsletter env_auth ''a@x.com'' s_ab) = Inr False \<and>
   wire (snd (send_newsletter env_auth ''a@x.com'' s_ab)) =
     [SMTP ''smtp.gmail.com'' 587, Starttls, Login ''news@x.com'' ''secret''] \<and>
   Quit \<notin> set (wire (snd (send_newsletter env_auth ''a@x.com'' s_ab)))"
proof -
  have c: "smtp env_auth (SMTP ''smtp.gmail.com'' 587) = None"
    by (simp add: env_auth_def)
  have w: "wire (snd (send_newsletter env_auth ''a@x.com'' s_ab)) =
      [SMTP ''smtp.gmail.com'' 587, Starttls, Login ''news@x.com'' ''secret'']"
    by (simp add: attempt_auth_rejected(3) [OF auth_rejected_env_auth] auth_attempt_calls_def
        s_ab_def)
  show ?thesis
    by (simp add: c w attempt_auth_rejected(1) [OF auth_rejected_env_auth])
qed

subsection \<open>C5: the plain-text part is the fixed text\<close>

lemma new_send_message:
  assumes "Send_message m \<in> set (wire (snd (send_newsletter e r s)))"
    and "Send_message m \<notin> set (wire s)"
  shows "\<exists>html. open_read e = Inr html \<and> m = built_message s r html"
  using assms
  by (auto simp: send_defs py_defs built_message_def
      split: sum.splits option.splits prod.splits if_splits)

lemma attempt_env_ok_wire:
  "wire (snd (send_newsletter env_ok r s_ab)) =
     [SMTP ''smtp.gmail.com'' 587, Starttls, Login ''news@x.com'' ''secret'',
      Send_message (built_message s_ab r ''<html></html>''), Quit]"
  by (simp add: send_defs py_defs built_message_def env_ok_def s_ab_def)

text \<open>
  C5. For every recipient, every template text and every environment, a message that a call
  of \<open>send_newsletter\<close> hands to the transport has exactly two parts: first the plain-text
  part, whose body is the constant \<open>text_content\<close>, then the HTML part, whose body is the
  text read from the template. The plain-text body depends on no input, and it is there
  whenever the HTML part is.
\<close>

theorem plain_text_part_is_fixed:
  assumes "Send_message m \<in> set (wire (snd (send_newsletter e r s)))"
    and "Send_message m \<notin> set (wire s)"
  shows "\<exists>html. open_read e = Inr html \<and> m = built_message s r html \<and>
           parts m = [MIMEText text_content ''plain'', MIMEText html ''html'']"
proof -
  from new_send_message [OF assms] obtain html
    where "open_read e = Inr html" "m = built_message s r html" by blast
  then show ?thesis by (auto simp: built_message_def)
qed

text \<open>Scenario 1, first recipient: the message sent carries the fixed text.\<close>

theorem plain_text_part_is_fixed_witness:
  "Send_message (built_message s_ab ''a@x.com'' ''<html></html>'')
     \<in> set (wire (snd (send_newsletter env_ok ''a@x.com'' s_ab))) \<and>
   Send_message (built_message s_ab ''a@x.com'' ''<html></html>'') \<notin> set (wire s_ab) \<and>
   parts (built_message s_ab ''a@x.com'' ''<html></html>'') =
     [MIMEText text_content ''plain'', MIMEText ''<html></html>'' ''html'']"
proof -
  let ?m = "built_message s_ab ''a@x.com'' ''<html></html>''"
  have a: "Send_message ?m \<in> set (wire (snd (send_newsletter env_ok ''a@x.com'' s_ab)))"
    by (simp add: attempt_env_ok_wire)
  have b: "Send_message ?m \<notin> set (wire s_ab)" by (simp add: s_ab_def)
  have o: "open_read env_ok = Inr ''<html></html>''" by (simp add: env_ok_def)
  from plain_text_part_is_fixed [OF a b] o a b show ?thesis by auto
qed

subsection \<open>C6: one call per list element, in list order\<close>

text \<open>
  C6. For every recipient list and every environment, the run of \<open>main\<close> is one call of
  \<open>send_newsletter\<close> for each element of the list, in the order of the list: the \<open>i\<close>-th
  call is on the \<open>i\<close>-th element, in the \<open>i\<close>-th environment. This is stated of everything
  the run leaves behind:
  \<^item> the SMTP calls of the run are the SMTP calls of these calls, one after the other, and
    nothing else (\<open>loop_wire\<close>): a second call for an element, a skipped element or two
    elements swapped would show on the wire;
  \<^item> the lines printed between the header and the summary are the lines of these calls,
    each followed by the empty line (\<open>loop_stdout\<close>);
  \<^item> the recorded calls are on the elements of the list, in its order, with the value each
    call returns (\<open>loop_outcomes\<close>), and the two counters count exactly these values.
  Nothing is reordered, merged or skipped; an address that occurs twice is called twice, at
  its two positions.
\<close>

theorem recipients_attempted_in_list_order:
  "history (snd (main envs s)) = history s @ loop_outcomes envs 0 (emailList s) (fresh s) \<and>
   map fst (loop_outcomes envs 0 (emailList s) (fresh s)) = emailList s \<and>
   map fst (history (snd (main envs s))) = map fst (history s) @ emailList s \<and>
   wire (snd (main envs s)) = wire s @ loop_wire envs 0 (emailList s) (fresh s) \<and>
   stdout (snd (main envs s)) =
     stdout s @ header_lines s @ loop_stdout envs 0 (emailList s) (fresh s)
       @ summary_lines (successes (loop_outcomes envs 0 (emailList s) (fresh s)))
           (failures (loop_outcomes envs 0 (emailList s) (fresh s))) \<and>
   fst (main envs s) =
     Inr (successes (loop_outcomes envs 0 (emailList s) (fresh s)),
          failures (loop_outcomes envs 0 (emailList s) (fresh s)))"
  by (simp add: state_after_main map_fst_loop_outcomes)

text \<open>
  A list with a repeated address, every step succeeding: the transport sees three complete
  sessions, to \<open>a\<close>, to \<open>b\<close> and to \<open>a\<close> again, and all three are counted.
\<close>

lemma repeated_address_attempted_twice:
  "map fst (history (snd (main envs
      (s_ab\<lparr>emailList := [''a@x.com'', ''b@x.com'', ''a@x.com'']\<rparr>)))) =
     [''a@x.com'', ''b@x.com'', ''a@x.com'']"
  by (simp add: state_after_main map_fst_loop_outcomes s_ab_def)

lemma repeated_address_sent_twice:
  "wire (snd (main (\<lambda>i. env_ok)
      (s_ab\<lparr>emailList := [''a@x.com'', ''b@x.com'', ''a@x.com'']\<rparr>))) =
     [SMTP ''smtp.gmail.com'' 587, Starttls, Login ''news@x.com'' ''secret'',
      Send_message (built_message s_ab ''a@x.com'' ''<html></html>''), Quit,
      SMTP ''smtp.gmail.com'' 587, Starttls, Login ''news@x.com'' ''secret'',
      Send_message (built_message s_ab ''b@x.com'' ''<html></html>''), Quit,
      SMTP ''smtp.gmail.com'' 587, Starttls, Login ''news@x.com'' ''secret'',
      Send_message (built_message s_ab ''a@x.com'' ''<html></html>''), Quit]"
  "fst (main (\<lambda>i. env_ok)
      (s_ab\<lparr>emailList := [''a@x.com'', ''b@x.com'', ''a@x.com'']\<rparr>)) = Inr (3, 0)"
  by (simp_all add: state_after_main send_defs py_defs built_message_def env_ok_def s_ab_def
      fresh_def successes_def failures_def)

subsection \<open>C7: send_newsletter always returns a boolean\<close>

text \<open>
  C7. Whatever the template read, the construction of the message and the SMTP calls do,
  raised errors included, \<open>send_newsletter\<close> returns a boolean and raises nothing. So no
  failure ends the run early: \<open>main\<close> returns, every recipient of the list has been called,
  and the output ends with the summary lines.
\<close>

theorem send_newsletter_never_raises:
  "(\<exists>b. fst (send_newsletter e r s) = Inr b) \<and>
   (\<exists>success_count fail_count.
      fst (main envs s0) = Inr (success_count, fail_count) \<and>
      map fst (history (snd (main envs s0))) = map fst (history s0) @ emailList s0 \<and>
      suffix (summary_lines success_count fail_count) (stdout (snd (main envs s0))))"
proof -
  have "\<exists>b. fst (send_newsletter e r s) = Inr b"
    using send_newsletter_returns [of e r s] by auto
  moreover have "suffix (summary_lines (successes (loop_outcomes envs 0 (emailList s0) (fresh s0)))
        (failures (loop_outcomes envs 0 (emailList s0) (fresh s0))))
      (stdout (snd (main envs s0)))"
    unfolding state_after_main suffix_def by (metis append.assoc)
  ultimately show ?thesis
    by (simp add: state_after_main map_fst_loop_outcomes)
qed

subsection \<open>C8: an empty template is treated like a missing one\<close>

lemma attempt_template_empty:
  assumes "open_read e = Inr []"
  shows "fst (send_newsletter e r s) = Inr False"
    and "wire (snd (send_newsletter e r s)) = wire s"
  using assms
  by (auto simp: send_defs py_defs split: sum.splits option.splits)

text \<open>
  C8. If the template file is read and its contents are the empty string, the call returns
  failure and makes no SMTP call; the same call with the file missing instead returns the
  same value and makes no SMTP call either.
\<close>

theorem empty_template_fails_like_missing:
  assumes "open_read e = Inr []"
  shows "fst (send_newsletter e r s) = Inr False \<and>
         wire (snd (send_newsletter e r s)) = wire s \<and>
         fst (send_newsletter (e\<lparr>open_read := Inl (Exn FileNotFoundError msg)\<rparr>) r s) =
           fst (send_newsletter e r s) \<and>
         wire (snd (send_newsletter (e\<lparr>open_read := Inl (Exn FileNotFoundError msg)\<rparr>) r s)) =
           wire (snd (send_newsletter e r s))"
proof -
  have "template_missing (e\<lparr>open_read := Inl (Exn FileNotFoundError msg)\<rparr>)"
    by (simp add: template_missing_def isinstance_def)
  from attempt_template_missing [OF this] attempt_template_empty [OF assms]
  show ?thesis by simp
qed

theorem empty_template_fails_like_missing_witness:
  "open_read env_empty = Inr [] \<and>
   fst (send_newsletter env_empty ''a@x.com'' s_a) = Inr False \<and>
   wire (snd (send_newsletter env_empty ''a@x.com'' s_a)) = []"
proof -
  have h: "open_read env_empty = Inr []" by (simp add: env_empty_def)
  have w: "wire s_a = []" by (simp add: s_a_def s_ab_def)
  from empty_template_fails_like_missing [OF h, of "''a@x.com''" s_a] h w
  show ?thesis by simp
qed

subsection \<open>C9: an undecodable template fails with the unexpected-error reason\<close>

text \<open>
  C9. If reading the template raises \<open>UnicodeDecodeError\<close> (and the message headers were
  built), then \<open>read_html_template\<close> does not handle it: it raises it and prints nothing.
  \<open>send_newsletter\<close> returns failure, the one line it prints is the unexpected-error line
  with the recipient and the text of the error (not the "Could not find" line of a missing
  template), and it makes no SMTP call.
\<close>

theorem undecodable_template_fails_as_unexpected:
  assumes "open_read e = Inl x" and "cls x = UnicodeDecodeError" and "mime_multipart e = None"
  shows "read_html_template e s = (Inl x, s) \<and>
         fst (send_newsletter e r s) = Inr False \<and>
         stdout (snd (send_newsletter e r s)) = stdout s @ [other_error_line r (str x)] \<and>
         wire (snd (send_newsletter e r s)) = wire s"
  using assms
  by (simp add: send_defs py_defs handler_line_def isinstance_def)

theorem undecodable_template_fails_as_unexpected_witness:
  "open_read env_undecodable = Inl (Exn UnicodeDecodeError ''invalid start byte'') \<and>
   mime_multipart env_undecodable = None \<and>
   fst (send_newsletter env_undecodable ''a@x.com'' s_a) = Inr False \<and>
   stdout (snd (send_newsletter env_undecodable ''a@x.com'' s_a)) =
     [other_error_line ''a@x.com'' ''invalid start byte''] \<and>
   wire (snd (send_newsletter env_undecodable ''a@x.com'' s_a)) = []"
proof -
  let ?x = "Exn UnicodeDecodeError ''invalid start byte''"
  have a: "open_read env_undecodable = Inl ?x" by (simp add: env_undecodable_def)
  have b: "cls ?x = UnicodeDecodeError" by simp
  have c: "mime_multipart env_undecodable = None"
    by (simp add: env_undecodable_def env_ok_def)
  have l: "stdout s_a = []" "wire s_a = []" by (simp_all add: s_a_def s_ab_def)
  from undecodable_template_fails_as_unexpected [OF a b c, of s_a "''a@x.com''"] a c l
  show ?thesis by simp
qed

subsection \<open>C10: the module-level configuration is never written\<close>

text \<open>
  C10. A run of \<open>main\<close>, and each call of \<open>send_newsletter\<close>, leaves the module-level variables
  as they were: the sender address, the credential, the recipient list, the subject and the
  display name. The state after the run is the state before it with more lines printed,
  more SMTP calls made and more calls recorded, and what was printed, sent and recorded
  before is still there; the two counters are locals of \<open>main\<close>, its result in the model.
\<close>

theorem module_configuration_unchanged:
  "snd (main envs s) =
     s\<lparr>stdout := stdout (snd (main envs s)), wire := wire (snd (main envs s)),
       history := history (snd (main envs s))\<rparr> \<and>
   email (snd (main envs s)) = email s \<and>
   password (snd (main envs s)) = password s \<and>
   emailList (snd (main envs s)) = emailList s \<and>
   subject (snd (main envs s)) = subject s \<and>
   from_name (snd (main envs s)) = from_name s \<and>
   snd (send_newsletter e r s) =
     s\<lparr>stdout := stdout (snd (send_newsletter e r s)),
       wire := wire (snd (send_newsletter e r s))\<rparr> \<and>
   prefix (stdout s) (stdout (snd (main envs s))) \<and>
   prefix (wire s) (wire (snd (main envs s))) \<and>
   prefix (history s) (history (snd (main envs s)))"
  by (simp add: main_closed send_newsletter_step [of e r s])

end
